theory Spec2Isabelle
  imports Complex_Main
begin

section \<open>Data model of the client\<close>

text \<open>
  The sources are the React client of the karaoke service. It receives a transcription
  as an array of word objects \<^verbatim>\<open>{word, start, end, speaker_id}\<close> and a list of speaker
  objects \<^verbatim>\<open>{speaker_id, name, color}\<close>, and it polls a job status payload
  \<^verbatim>\<open>{status, message, progress, transcription, result_url}\<close>.

  JavaScript numbers are modelled as exact rationals: the arithmetic of
  \<^verbatim>\<open>formatSRTTime\<close> (division, remainder, floor) is carried out without rounding error,
  and integers print in plain decimal notation (magnitudes below \<open>10^21\<close>, where JavaScript
  switches to exponent notation). Speaker ids are integers. A property that may be
  \<^verbatim>\<open>undefined\<close> or \<^verbatim>\<open>null\<close> is an \<open>option\<close>. The word's field \<^verbatim>\<open>end\<close> is called
  \<open>end_time\<close> and its field \<^verbatim>\<open>speaker_id\<close> is called \<open>word_speaker_id\<close>, to keep it apart
  from the speaker's.
\<close>

record Word =
  word :: string
  start :: rat
  end_time :: rat
  word_speaker_id :: "int option"

record Speaker =
  speaker_id :: int
  name :: "string option"
  color :: "string option"




section \<open>JavaScript primitives used by the client\<close>

definition digit_char :: "nat \<Rightarrow> char" where
  "digit_char n = ''0123456789'' ! n"

fun nat_digits :: "nat \<Rightarrow> string" where
  "nat_digits n = (if n < 10 then [digit_char n] else nat_digits (n div 10) @ [digit_char (n mod 10)])"

declare nat_digits.simps [simp del]

text \<open>\<^verbatim>\<open>Number.prototype.toString()\<close> on an integral number.\<close>

definition toString :: "int \<Rightarrow> string" where
  "toString i = (if i < 0 then CHR ''-'' # nat_digits (nat (- i)) else nat_digits (nat i))"








text \<open>The remainder \<^verbatim>\<open>a % b\<close> on integral numbers (the sign follows the dividend), an
  array read \<^verbatim>\<open>xs[i]\<close>, which is \<^verbatim>\<open>undefined\<close> outside the array, and the truthiness
  of an optional string (\<^verbatim>\<open>undefined\<close>, \<^verbatim>\<open>null\<close> and the empty string are falsy).\<close>

definition js_rem_int :: "int \<Rightarrow> int \<Rightarrow> int" where
  "js_rem_int a b = (if 0 \<le> a then a mod \<bar>b\<bar> else - ((- a) mod \<bar>b\<bar>))"

definition js_index :: "'a list \<Rightarrow> int \<Rightarrow> 'a option" where
  "js_index xs i = (if 0 \<le> i \<and> i < int (length xs) then Some (xs ! nat i) else None)"

definition truthy :: "string option \<Rightarrow> bool" where
  "truthy v = (case v of None \<Rightarrow> False | Some s \<Rightarrow> s \<noteq> [])"




section \<open>SRT export (TranscriptionResult)\<close>







section \<open>Speaker colours and default names\<close>

text \<open>
  TranscriptionResult:
  \<^verbatim>\<open>
  const SPEAKER_COLORS = [
    '#FF6B6B', '#4ECDC4', '#FFE66D', '#95E1D3',
    '#DDA0DD', '#F7DC6F', '#87CEEB', '#FFA07A',
  ]
  const getSpeakerColor = (speakerId) => {
    const speaker = speakers.find(s => s.speaker_id === speakerId)
    return speaker?.color || SPEAKER_COLORS[speakerId % SPEAKER_COLORS.length]
  }
  \<close>
  The result is \<^verbatim>\<open>undefined\<close> (\<open>None\<close>) when the palette is read at a negative index.
\<close>

definition SPEAKER_COLORS :: "string list" where
  "SPEAKER_COLORS =
     [''#FF6B6B'', ''#4ECDC4'', ''#FFE66D'', ''#95E1D3'',
      ''#DDA0DD'', ''#F7DC6F'', ''#87CEEB'', ''#FFA07A'']"

definition getSpeakerColor :: "Speaker list \<Rightarrow> int \<Rightarrow> string option" where
  "getSpeakerColor speakers speakerId =
     (let speaker = find (\<lambda>s. speaker_id s = speakerId) speakers;
          own = (case speaker of None \<Rightarrow> None | Some s \<Rightarrow> color s)
      in if truthy own then own
         else js_index SPEAKER_COLORS (js_rem_int speakerId (int (length SPEAKER_COLORS))))"

text \<open>
  SpeakerEditor starts from
  \<^verbatim>\<open>speakers.map((s) => ({ ...s, name: `Falante ${s.speaker_id + 1}` }))\<close>,
  and the legend of TranscriptionResult shows
  \<^verbatim>\<open>speaker.name || `Falante ${speaker.speaker_id + 1}`\<close>.
\<close>

definition initial_speakerConfigs :: "Speaker list \<Rightarrow> Speaker list" where
  "initial_speakerConfigs speakers =
     map (\<lambda>s. s\<lparr>name := Some (''Falante '' @ toString (speaker_id s + 1))\<rparr>) speakers"

definition speaker_label :: "Speaker \<Rightarrow> string" where
  "speaker_label s =
     (if truthy (name s) then the (name s) else ''Falante '' @ toString (speaker_id s + 1))"

text \<open>
  The preview of SpeakerEditor colours a word by
  \<^verbatim>\<open>
  const config = speakerConfigs.find(
    (s) => s.speaker_id === (word.speaker_id || 0)
  )
  ... style={{ color: config?.color || '#ffffff' }}
  \<close>
  A word without a speaker id counts as a word of speaker 0.
\<close>

definition word_speaker :: "Word \<Rightarrow> int" where
  "word_speaker w = (case word_speaker_id w of None \<Rightarrow> 0 | Some i \<Rightarrow> i)"

definition preview_color :: "Speaker list \<Rightarrow> Word \<Rightarrow> string" where
  "preview_color speakerConfigs w =
     (let config = find (\<lambda>s. speaker_id s = word_speaker w) speakerConfigs;
          own = (case config of None \<Rightarrow> None | Some s \<Rightarrow> color s)
      in if truthy own then the own else ''#ffffff'')"

section \<open>Job status display and polling\<close>













section \<open>Backend components, modelled from the specification\<close>

text \<open>
  Modelled from the spec: the speaker detector \<^verbatim>\<open>detect\<close> of the backend is not among the
  sources. The specification (section 4.2) describes it: iterate the words in order; the
  gap of a word is its start minus the previous word's end; a gap exceeding the pause
  threshold marks a boundary; the runs between boundaries are segments, which get speaker
  ids by round-robin alternation starting at 0; the first word is always speaker 0; zero
  words give an empty speaker list. The pause threshold and the number \<open>n\<close> of speaker ids
  the round-robin cycles through (two for a plain alternation) are parameters. The
  returned speaker list is represented by the speaker ids in use, in ascending order.
\<close>

fun detect_ids :: "rat \<Rightarrow> nat \<Rightarrow> nat \<Rightarrow> rat \<Rightarrow> Word list \<Rightarrow> nat list" where
  "detect_ids threshold n seg prev_end [] = []"
| "detect_ids threshold n seg prev_end (w # ws) =
     (let gap = start w - prev_end;
          seg' = (if gap > threshold then seg + 1 else seg)
      in (seg' mod n) # detect_ids threshold n seg' (end_time w) ws)"

text \<open>Modelled from the spec: the ids of all words; the first word is always speaker 0, the
  words after it are numbered by the loop.\<close>

definition assign_speakers :: "rat \<Rightarrow> nat \<Rightarrow> Word list \<Rightarrow> nat list" where
  "assign_speakers threshold n ws =
     (case ws of [] \<Rightarrow> [] | w # rest \<Rightarrow> 0 # detect_ids threshold n 0 (end_time w) rest)"

text \<open>Modelled from the spec: \<^verbatim>\<open>detect(transcript)\<close> returns the words with their speaker ids
  and the speaker list.\<close>

definition detect :: "rat \<Rightarrow> nat \<Rightarrow> Word list \<Rightarrow> Word list \<times> nat list" where
  "detect threshold n ws =
     (let ids = assign_speakers threshold n ws
      in (map (\<lambda>(w, i). w\<lparr>word_speaker_id := Some (int i)\<rparr>) (zip ws ids),
          filter (\<lambda>i. i \<in> set ids) [0..<n]))"

section \<open>Reference notions the code is checked against\<close>

subsection \<open>SRT export\<close>










subsection \<open>Speakers\<close>

text \<open>The colour a speaker list itself holds for a speaker id: that of the first speaker
  with this id, when it is a non-empty string.\<close>

definition own_color :: "Speaker list \<Rightarrow> int \<Rightarrow> string option" where
  "own_color speakers i =
     (case find (\<lambda>s. speaker_id s = i) speakers of
        None \<Rightarrow> None
      | Some s \<Rightarrow> (case color s of None \<Rightarrow> None | Some c \<Rightarrow> if c = [] then None else Some c))"

definition word_example :: "int \<Rightarrow> Word" where
  "word_example i = \<lparr>word = ''ola'', start = 0, end_time = 1, word_speaker_id = Some i\<rparr>"

definition speaker_example :: "Speaker list" where
  "speaker_example =
     [\<lparr>speaker_id = 0, name = Some ''Speaker 1'', color = Some ''#FF6B6B''\<rparr>,
      \<lparr>speaker_id = 1, name = None, color = None\<rparr>]"

subsection \<open>Job statuses\<close>








subsection \<open>Speaker segments\<close>

text \<open>The gap in front of the word at position \<open>j\<close>, and the number of the segment a word
  lies in: the number of boundaries at or before its position.\<close>

definition gap_before :: "Word list \<Rightarrow> nat \<Rightarrow> rat" where
  "gap_before ws j = start (ws ! j) - end_time (ws ! (j - 1))"

definition segment_of :: "rat \<Rightarrow> Word list \<Rightarrow> nat \<Rightarrow> nat" where
  "segment_of threshold ws i = length (filter (\<lambda>j. gap_before ws j > threshold) [1..<Suc i])"

definition scenario_A :: "Word list" where
  "scenario_A =
     [\<lparr>word = ''hi'', start = 0, end_time = 3 / 10, word_speaker_id = None\<rparr>,
      \<lparr>word = ''there'', start = 1 / 2, end_time = 9 / 10, word_speaker_id = None\<rparr>]"

definition scenario_B :: "Word list" where
  "scenario_B =
     [\<lparr>word = ''hi'', start = 0, end_time = 3 / 10, word_speaker_id = None\<rparr>,
      \<lparr>word = ''bye'', start = 5 / 2, end_time = 29 / 10, word_speaker_id = None\<rparr>]"

section \<open>Verification of the SRT export\<close>

subsection \<open>Decimal digits and time stamps\<close>

















subsection \<open>The segmentation loop\<close>









subsection \<open>The emission loop\<close>





section \<open>Verification of the speaker defaults\<close>

text \<open>
  Claim C8, as the code has it. Every speaker shown in the editor starts with the display
  name \<open>Falante N\<close>, where \<open>N\<close> is the speaker id plus one, whatever name the server sent;
  the editor changes neither the id nor the colour. The legend uses the same default for a
  speaker without a name. The palette has eight colours: for a speaker id from 0 upwards
  for which the speaker list holds no colour, \<^verbatim>\<open>getSpeakerColor\<close> (the colour of the words in
  the transcription view) returns the palette entry at index speaker id modulo 8, and a
  colour held by the speaker list wins over the palette. The preview of the editor does
  not use the palette: a word of a speaker for which the editor's list holds no colour is
  drawn in \<open>#ffffff\<close>, and in the speaker's colour otherwise.
\<close>

theorem speaker_defaults:
  "map name (initial_speakerConfigs speakers) =
     map (\<lambda>s. Some (''Falante '' @ toString (speaker_id s + 1))) speakers \<and>
   map speaker_id (initial_speakerConfigs speakers) = map speaker_id speakers \<and>
   map color (initial_speakerConfigs speakers) = map color speakers \<and>
   (\<not> truthy (name s) \<longrightarrow> speaker_label s = ''Falante '' @ toString (speaker_id s + 1)) \<and>
   length SPEAKER_COLORS = 8 \<and>
   (0 \<le> i \<and> own_color speakers i = None \<longrightarrow>
      getSpeakerColor speakers i = Some (SPEAKER_COLORS ! (nat i mod length SPEAKER_COLORS))) \<and>
   (\<forall>c. own_color speakers i = Some c \<longrightarrow> getSpeakerColor speakers i = Some c) \<and>
   (own_color speakers (word_speaker w) = None \<longrightarrow> preview_color speakers w = ''#ffffff'') \<and>
   (\<forall>c. own_color speakers (word_speaker w) = Some c \<longrightarrow> preview_color speakers w = c)"
proof (intro conjI impI allI)
  show "map name (initial_speakerConfigs speakers) =
     map (\<lambda>s. Some (''Falante '' @ toString (speaker_id s + 1))) speakers"
    by (simp add: initial_speakerConfigs_def)
  show "map speaker_id (initial_speakerConfigs speakers) = map speaker_id speakers"
    by (simp add: initial_speakerConfigs_def)
  show "map color (initial_speakerConfigs speakers) = map color speakers"
    by (simp add: initial_speakerConfigs_def)
  show "length SPEAKER_COLORS = 8" by (simp add: SPEAKER_COLORS_def)
next
  assume "\<not> truthy (name s)"
  then show "speaker_label s = ''Falante '' @ toString (speaker_id s + 1)"
    by (simp add: speaker_label_def)
next
  assume a: "0 \<le> i \<and> own_color speakers i = None"
  have len: "length SPEAKER_COLORS = 8" by (simp add: SPEAKER_COLORS_def)
  from a have "\<not> truthy (case find (\<lambda>s. speaker_id s = i) speakers of None \<Rightarrow> None | Some s \<Rightarrow> color s)"
    by (auto simp: own_color_def truthy_def split: option.splits if_splits)
  moreover have "js_rem_int i 8 = i mod 8" using a by (simp add: js_rem_int_def)
  moreover have "nat (i mod 8) = nat i mod 8" using a by (simp add: nat_mod_distrib)
  ultimately show "getSpeakerColor speakers i = Some (SPEAKER_COLORS ! (nat i mod length SPEAKER_COLORS))"
    by (simp add: getSpeakerColor_def Let_def len js_index_def)
next
  fix c assume "own_color speakers i = Some c"
  then show "getSpeakerColor speakers i = Some c"
    by (auto simp: own_color_def getSpeakerColor_def truthy_def Let_def split: option.splits if_splits)
next
  assume "own_color speakers (word_speaker w) = None"
  then show "preview_color speakers w = ''#ffffff''"
    by (auto simp: own_color_def preview_color_def truthy_def Let_def split: option.splits if_splits)
next
  fix c assume "own_color speakers (word_speaker w) = Some c"
  then show "preview_color speakers w = c"
    by (auto simp: own_color_def preview_color_def truthy_def Let_def split: option.splits if_splits)
qed

text \<open>The statement at a speaker list whose second speaker has neither name nor colour,
  and at a word of each of the two speakers.\<close>

theorem speaker_defaults_witness:
  "own_color speaker_example 9 = None \<and>
   getSpeakerColor speaker_example 9 = Some ''#4ECDC4'' \<and>
   own_color speaker_example 0 = Some ''#FF6B6B'' \<and>
   getSpeakerColor speaker_example 0 = Some ''#FF6B6B'' \<and>
   \<not> truthy (name (speaker_example ! 1)) \<and>
   speaker_label (speaker_example ! 1) = ''Falante 2'' \<and>
   own_color speaker_example (word_speaker (word_example 1)) = None \<and>
   preview_color speaker_example (word_example 1) = ''#ffffff'' \<and>
   own_color speaker_example (word_speaker (word_example 0)) = Some ''#FF6B6B'' \<and>
   preview_color speaker_example (word_example 0) = ''#FF6B6B''"
proof -
  note T = speaker_defaults [of speaker_example "speaker_example ! 1"]
  have n9: "own_color speaker_example 9 = None" by code_simp
  have "(0::int) \<le> 9" by simp
  with n9 T [of 9] have "getSpeakerColor speaker_example 9 =
      Some (SPEAKER_COLORS ! (nat 9 mod length SPEAKER_COLORS))" by blast
  moreover have "SPEAKER_COLORS ! (nat 9 mod length SPEAKER_COLORS) = ''#4ECDC4''" by code_simp
  ultimately have c9: "getSpeakerColor speaker_example 9 = Some ''#4ECDC4''" by simp
  have o0: "own_color speaker_example 0 = Some ''#FF6B6B''" by code_simp
  with T [of 0] have c0: "getSpeakerColor speaker_example 0 = Some ''#FF6B6B''" by blast
  have nt: "\<not> truthy (name (speaker_example ! 1))" by code_simp
  with T [of 0] have "speaker_label (speaker_example ! 1) =
      ''Falante '' @ toString (speaker_id (speaker_example ! 1) + 1)" by blast
  moreover have "''Falante '' @ toString (speaker_id (speaker_example ! 1) + 1) = ''Falante 2''" by code_simp
  ultimately have l1: "speaker_label (speaker_example ! 1) = ''Falante 2''" by simp
  have w1: "own_color speaker_example (word_speaker (word_example 1)) = None" by code_simp
  with T [of 0 "word_example 1"]
  have p1: "preview_color speaker_example (word_example 1) = ''#ffffff''" by blast
  have w0: "own_color speaker_example (word_speaker (word_example 0)) = Some ''#FF6B6B''" by code_simp
  with T [of 0 "word_example 0"]
  have p0: "preview_color speaker_example (word_example 0) = ''#FF6B6B''" by blast
  from n9 c9 o0 c0 nt l1 w1 p1 w0 p0 show ?thesis by blast
qed

text \<open>Claim C8 as stated fails: the default name of speaker 0 is \<open>Falante 1\<close>, neither
  \<open>Speaker 0\<close> nor \<open>Speaker 1\<close>, even when the server sent \<open>Speaker 1\<close>.\<close>

theorem speaker_name_counterexample:
  "map name (initial_speakerConfigs speaker_example) = [Some ''Falante 1'', Some ''Falante 2''] \<and>
   name (initial_speakerConfigs speaker_example ! 0) \<noteq> Some ''Speaker 0'' \<and>
   name (initial_speakerConfigs speaker_example ! 0) \<noteq> Some ''Speaker 1''"
  by code_simp

section \<open>Verification of the status sequence\<close>













section \<open>Verification of the speaker detector\<close>

lemma gap_before_Cons: "0 < j \<Longrightarrow> gap_before (w # ws) (Suc j) = gap_before ws j"
  by (cases j) (simp_all add: gap_before_def)

lemma filter_shift:
  "length (filter (\<lambda>j. gap_before (w # ws) j > t) [2..<Suc (Suc i)]) =
   length (filter (\<lambda>j. gap_before ws j > t) [1..<Suc i])"
proof -
  have "[2..<Suc (Suc i)] = map Suc [1..<Suc i]"
    by (simp add: map_Suc_upt numeral_2_eq_2)
  then have "filter (\<lambda>j. gap_before (w # ws) j > t) [2..<Suc (Suc i)] =
      map Suc (filter (\<lambda>j. gap_before (w # ws) (Suc j) > t) [1..<Suc i])"
    by (simp add: filter_map comp_def)
  also have "filter (\<lambda>j. gap_before (w # ws) (Suc j) > t) [1..<Suc i] =
      filter (\<lambda>j. gap_before ws j > t) [1..<Suc i]"
    by (rule filter_cong) (auto simp: gap_before_Cons)
  finally show ?thesis by simp
qed

lemma segment_of_Cons:
  "segment_of t (w # v # vs) (Suc i) =
     (if gap_before (w # v # vs) 1 > t then 1 else 0) + segment_of t (v # vs) i"
proof -
  have "[1..<Suc (Suc i)] = 1 # [2..<Suc (Suc i)]"
    by (simp add: upt_conv_Cons numeral_2_eq_2)
  then show ?thesis
    by (simp add: segment_of_def filter_shift del: upt_Suc)
qed

lemma detect_ids_length: "length (detect_ids t n seg p ws) = length ws"
  by (induction ws arbitrary: seg p) (simp_all add: Let_def)

lemma detect_ids_nth:
  "i < length ws \<Longrightarrow>
   detect_ids t n seg (end_time w) ws ! i = (seg + segment_of t (w # ws) (Suc i)) mod n"
proof (induction ws arbitrary: w seg i)
  case Nil
  then show ?case by simp
next
  case (Cons v vs)
  have g: "gap_before (w # v # vs) (Suc 0) = start v - end_time w" by (simp add: gap_before_def)
  show ?case
  proof (cases i)
    case 0
    then show ?thesis by (simp add: Let_def segment_of_def g)
  next
    case (Suc k)
    with Cons.prems have k: "k < length vs" by simp
    show ?thesis
      using Cons.IH [OF k, of "if start v - end_time w > t then seg + 1 else seg" v] Suc
      by (simp add: Let_def segment_of_Cons [of t w v vs "Suc k"] g add.assoc)
  qed
qed

lemma assign_speakers_length: "length (assign_speakers t n ws) = length ws"
  by (cases ws) (simp_all add: assign_speakers_def detect_ids_length)

lemma assign_speakers_nth:
  assumes "i < length ws"
  shows "assign_speakers t n ws ! i = segment_of t ws i mod n"
proof (cases ws)
  case Nil
  with assms show ?thesis by simp
next
  case (Cons w rest)
  show ?thesis
  proof (cases i)
    case 0
    then show ?thesis by (simp add: Cons assign_speakers_def segment_of_def)
  next
    case (Suc k)
    with assms Cons have "k < length rest" by simp
    from detect_ids_nth [OF this, of t n 0 w] show ?thesis
      by (simp add: Cons Suc assign_speakers_def)
  qed
qed

lemma segment_of_0: "segment_of t ws 0 = 0"
  by (simp add: segment_of_def)

lemma segment_of_Suc:
  "segment_of t ws (Suc i) = segment_of t ws i + (if gap_before ws (Suc i) > t then 1 else 0)"
  by (simp add: segment_of_def)

lemma segment_of_no_gap:
  assumes "\<forall>j. 0 < j \<and> j < length ws \<longrightarrow> gap_before ws j \<le> t" and "i < length ws"
  shows "segment_of t ws i = 0"
proof -
  have "filter (\<lambda>j. gap_before ws j > t) [1..<Suc i] = []"
    using assms by (auto simp: filter_empty_conv not_less)
  then show ?thesis by (simp add: segment_of_def)
qed

lemma detect_fst_length: "length (fst (detect t n ws)) = length ws"
  by (simp add: detect_def Let_def assign_speakers_length)

lemma detect_fst_nth:
  assumes "i < length ws"
  shows "fst (detect t n ws) ! i = (ws ! i)\<lparr>word_speaker_id := Some (int (segment_of t ws i mod n))\<rparr>"
  using assms by (simp add: detect_def Let_def assign_speakers_length assign_speakers_nth)

lemma assign_speakers_set:
  "set (assign_speakers t n ws) = (\<lambda>i. segment_of t ws i mod n) ` {..<length ws}"
proof -
  have "assign_speakers t n ws = map (\<lambda>i. segment_of t ws i mod n) [0..<length ws]"
    by (rule nth_equalityI) (simp_all add: assign_speakers_length assign_speakers_nth)
  then show ?thesis by (simp add: atLeast0LessThan)
qed

lemma detect_snd_set:
  assumes "1 \<le> n"
  shows "set (snd (detect t n ws)) = (\<lambda>i. segment_of t ws i mod n) ` {..<length ws}"
proof -
  let ?ids = "assign_speakers t n ws"
  have bound: "k < n" if "k \<in> set ?ids" for k
  proof -
    from that obtain i where "k = segment_of t ws i mod n"
      unfolding assign_speakers_set by blast
    with assms show ?thesis by simp
  qed
  have "snd (detect t n ws) = filter (\<lambda>i. i \<in> set ?ids) [0..<n]"
    by (simp add: detect_def Let_def)
  then have "set (snd (detect t n ws)) = {i. i \<in> set ?ids \<and> i < n}"
    by auto
  also have "\<dots> = set ?ids" using bound by blast
  finally show ?thesis by (simp only: assign_speakers_set)
qed

lemma filter_upt_initial:
  assumes "k \<le> n" and "\<forall>i<n. i \<in> S \<longleftrightarrow> i < k"
  shows "filter (\<lambda>i. i \<in> S) [0..<n] = [0..<k]"
proof -
  from assms(1) obtain d where "n = k + d" by (rule less_eqE)
  then have split: "[0..<n] = [0..<k] @ [k..<n]" using upt_add_eq_append [of 0 k d] by simp
  have "\<forall>i\<in>set [0..<k]. i \<in> S"
  proof
    fix i assume "i \<in> set [0..<k]"
    then have "i < k" by simp
    with assms show "i \<in> S" by (meson less_le_trans)
  qed
  then have low: "filter (\<lambda>i. i \<in> S) [0..<k] = [0..<k]" by (rule filter_True)
  have "\<forall>i\<in>set [k..<n]. \<not> i \<in> S"
  proof
    fix i assume "i \<in> set [k..<n]"
    then have "k \<le> i" "i < n" by simp_all
    with assms(2) show "\<not> i \<in> S" by (meson not_le)
  qed
  then have high: "filter (\<lambda>i. i \<in> S) [k..<n] = []" by (rule filter_False)
  show ?thesis unfolding split filter_append low high by simp
qed

lemma detect_no_gap:
  assumes n: "1 \<le> n" and ws: "ws \<noteq> []"
    and gaps: "\<forall>j. 0 < j \<and> j < length ws \<longrightarrow> gap_before ws j \<le> t"
  shows "(\<forall>w\<in>set (fst (detect t n ws)). word_speaker_id w = Some 0) \<and> snd (detect t n ws) = [0]"
proof
  show "\<forall>w\<in>set (fst (detect t n ws)). word_speaker_id w = Some 0"
  proof
    fix w assume "w \<in> set (fst (detect t n ws))"
    then obtain i where i: "i < length ws" and w: "w = fst (detect t n ws) ! i"
      unfolding in_set_conv_nth detect_fst_length by blast
    have "segment_of t ws i = 0" using gaps i by (rule segment_of_no_gap)
    with i w show "word_speaker_id w = Some 0" by (simp add: detect_fst_nth)
  qed
  have ids: "k \<in> set (assign_speakers t n ws) \<longleftrightarrow> k = 0" for k
  proof
    assume "k \<in> set (assign_speakers t n ws)"
    then obtain i where "i < length ws" "k = segment_of t ws i mod n"
      unfolding assign_speakers_set by blast
    then show "k = 0" using segment_of_no_gap [OF gaps] by simp
  next
    assume "k = 0"
    moreover have "0 < length ws" using ws by simp
    then have "segment_of t ws 0 mod n \<in> (\<lambda>i. segment_of t ws i mod n) ` {..<length ws}"
      by (intro imageI) simp
    ultimately show "k \<in> set (assign_speakers t n ws)"
      by (simp add: assign_speakers_set segment_of_0)
  qed
  have "filter (\<lambda>i. i \<in> set (assign_speakers t n ws)) [0..<n] = [0..<1]"
  proof (rule filter_upt_initial)
    show "1 \<le> n" by (rule n)
    show "\<forall>i<n. (i \<in> set (assign_speakers t n ws)) = (i < 1)" by (simp add: ids)
  qed
  then show "snd (detect t n ws) = [0]" by (simp add: detect_def Let_def)
qed

lemma scenario_A_gap: "gap_before scenario_A (Suc 0) = 1 / 5"
  by (simp add: gap_before_def scenario_A_def)

lemma scenario_B_gap: "gap_before scenario_B (Suc 0) = 11 / 5"
  by (simp add: gap_before_def scenario_B_def)

lemma detect_scenario_A:
  assumes "1 \<le> n"
  shows "map word_speaker_id (fst (detect 1 n scenario_A)) = [Some 0, Some 0] \<and> snd (detect 1 n scenario_A) = [0]"
proof -
  have len: "length scenario_A = 2" by (simp add: scenario_A_def)
  have gaps: "\<forall>j. 0 < j \<and> j < length scenario_A \<longrightarrow> gap_before scenario_A j \<le> 1"
  proof (intro allI impI)
    fix j assume "0 < j \<and> j < length scenario_A"
    with len have "j = 1" by simp
    then show "gap_before scenario_A j \<le> 1" by (simp add: scenario_A_gap)
  qed
  have ne: "scenario_A \<noteq> []" by (simp add: scenario_A_def)
  from detect_no_gap [OF assms ne gaps]
  have all0: "\<forall>w\<in>set (fst (detect 1 n scenario_A)). word_speaker_id w = Some 0"
    and sp: "snd (detect 1 n scenario_A) = [0]" by simp_all
  have "length (fst (detect 1 n scenario_A)) = 2" by (simp add: detect_fst_length len)
  then obtain a b where ab: "fst (detect 1 n scenario_A) = [a, b]"
    by (auto simp: length_Suc_conv numeral_2_eq_2)
  with all0 sp show ?thesis by simp
qed

lemma detect_scenario_B:
  assumes "2 \<le> n"
  shows "map word_speaker_id (fst (detect 1 n scenario_B)) = [Some 0, Some 1] \<and> snd (detect 1 n scenario_B) = [0, 1]"
proof -
  have ids: "assign_speakers 1 n scenario_B = [0, 1]"
    using assms by (simp add: assign_speakers_def scenario_B_def Let_def)
  have "filter (\<lambda>i. i \<in> set [0, 1 :: nat]) [0..<n] = [0..<2]"
    using assms by (intro filter_upt_initial) auto
  then have "snd (detect 1 n scenario_B) = [0, 1]"
    by (simp add: detect_def Let_def ids upt_conv_Cons)
  moreover have "map word_speaker_id (fst (detect 1 n scenario_B)) = [Some 0, Some 1]"
    by (simp add: detect_def Let_def ids) (simp add: scenario_B_def)
  ultimately show ?thesis by simp
qed

text \<open>
  Claim C1. For a round-robin over at least one speaker id, the detector keeps the words
  and gives the word at position \<open>i\<close> the speaker id \<open>segment_of t ws i mod n\<close>, where the
  segment number starts at 0 and grows by one exactly at each position whose gap to the
  previous word exceeds the threshold. The first word is speaker 0. The speaker list holds
  exactly the ids in use, each once; it is empty for zero words, and when no gap exceeds the
  threshold every word is speaker 0 and the list is \<open>[0]\<close>. With threshold 1, both words
  of scenario A are speaker 0, and in scenario B, with at least two speaker ids to
  alternate between, the first word is speaker 0 and the second is speaker 1.
\<close>

theorem detect_round_robin:
  assumes n: "1 \<le> n"
  shows "length (fst (detect t n ws)) = length ws \<and>
    (\<forall>i<length ws. fst (detect t n ws) ! i =
        (ws ! i)\<lparr>word_speaker_id := Some (int (segment_of t ws i mod n))\<rparr>) \<and>
    segment_of t ws 0 = 0 \<and>
    (\<forall>i. segment_of t ws (Suc i) = segment_of t ws i + (if gap_before ws (Suc i) > t then 1 else 0)) \<and>
    (ws \<noteq> [] \<longrightarrow> word_speaker_id (fst (detect t n ws) ! 0) = Some 0) \<and>
    set (snd (detect t n ws)) = (\<lambda>i. segment_of t ws i mod n) ` {..<length ws} \<and>
    distinct (snd (detect t n ws)) \<and>
    detect t n [] = ([], []) \<and>
    (ws \<noteq> [] \<and> (\<forall>j. 0 < j \<and> j < length ws \<longrightarrow> gap_before ws j \<le> t) \<longrightarrow>
       (\<forall>w\<in>set (fst (detect t n ws)). word_speaker_id w = Some 0) \<and> snd (detect t n ws) = [0]) \<and>
    map word_speaker_id (fst (detect 1 n scenario_A)) = [Some 0, Some 0] \<and>
    snd (detect 1 n scenario_A) = [0] \<and>
    (2 \<le> n \<longrightarrow> map word_speaker_id (fst (detect 1 n scenario_B)) = [Some 0, Some 1] \<and>
       snd (detect 1 n scenario_B) = [0, 1])"
proof (intro conjI allI impI)
  show "length (fst (detect t n ws)) = length ws" by (rule detect_fst_length)
  show "segment_of t ws 0 = 0" by (rule segment_of_0)
  show "set (snd (detect t n ws)) = (\<lambda>i. segment_of t ws i mod n) ` {..<length ws}"
    by (rule detect_snd_set [OF n])
  show "distinct (snd (detect t n ws))" by (simp add: detect_def Let_def)
  show "detect t n [] = ([], [])" by (simp add: detect_def assign_speakers_def)
  show "map word_speaker_id (fst (detect 1 n scenario_A)) = [Some 0, Some 0]"
    "snd (detect 1 n scenario_A) = [0]"
    using detect_scenario_A [OF n] by simp_all
next
  fix i assume "i < length ws"
  then show "fst (detect t n ws) ! i =
        (ws ! i)\<lparr>word_speaker_id := Some (int (segment_of t ws i mod n))\<rparr>"
    by (rule detect_fst_nth)
next
  fix i show "segment_of t ws (Suc i) = segment_of t ws i + (if gap_before ws (Suc i) > t then 1 else 0)"
    by (rule segment_of_Suc)
next
  assume "ws \<noteq> []"
  then have "0 < length ws" by simp
  then show "word_speaker_id (fst (detect t n ws) ! 0) = Some 0"
    by (simp add: detect_fst_nth segment_of_0)
next
  assume a: "ws \<noteq> [] \<and> (\<forall>j. 0 < j \<and> j < length ws \<longrightarrow> gap_before ws j \<le> t)"
  then have "(\<forall>w\<in>set (fst (detect t n ws)). word_speaker_id w = Some 0) \<and> snd (detect t n ws) = [0]"
    using detect_no_gap [OF n] by blast
  then show "\<forall>w\<in>set (fst (detect t n ws)). word_speaker_id w = Some 0" "snd (detect t n ws) = [0]"
    by simp_all
next
  assume "2 \<le> n"
  from detect_scenario_B [OF this]
  show "map word_speaker_id (fst (detect 1 n scenario_B)) = [Some 0, Some 1]"
    "snd (detect 1 n scenario_B) = [0, 1]" by simp_all
qed

text \<open>The statement for an alternation between two speakers, at scenario B and, for the
  case without a qualifying gap, at scenario A.\<close>

theorem detect_round_robin_witness:
  "(1::nat) \<le> 2 \<and>
   map word_speaker_id (fst (detect 1 2 scenario_B)) = [Some 0, Some 1] \<and>
   snd (detect 1 2 scenario_B) = [0, 1] \<and>
   scenario_B \<noteq> [] \<and> word_speaker_id (fst (detect 1 2 scenario_B) ! 0) = Some 0 \<and>
   gap_before scenario_B 1 = 11 / 5 \<and>
   fst (detect 1 2 scenario_B) ! 1 = (scenario_B ! 1)\<lparr>word_speaker_id := Some 1\<rparr> \<and>
   scenario_A \<noteq> [] \<and> length scenario_A = 2 \<and> gap_before scenario_A 1 \<le> 1 \<and>
   list_all (\<lambda>w. word_speaker_id w = Some 0) (fst (detect 1 2 scenario_A)) \<and>
   snd (detect 1 2 scenario_A) = [0]"
proof -
  have h: "(1::nat) \<le> 2" by simp
  note T = detect_round_robin [OF h, of 1 scenario_B]
  have two: "(2::nat) \<le> 2" by simp
  from T two have b: "map word_speaker_id (fst (detect 1 2 scenario_B)) = [Some 0, Some 1]"
    "snd (detect 1 2 scenario_B) = [0, 1]" by blast+
  have ne: "scenario_B \<noteq> []" by (simp add: scenario_B_def)
  with T have f: "word_speaker_id (fst (detect 1 2 scenario_B) ! 0) = Some 0" by blast
  have g: "gap_before scenario_B 1 = 11 / 5" using scenario_B_gap by simp
  have "(1::nat) < length scenario_B" by (simp add: scenario_B_def)
  with T have "fst (detect 1 2 scenario_B) ! 1 =
      (scenario_B ! 1)\<lparr>word_speaker_id := Some (int (segment_of 1 scenario_B 1 mod 2))\<rparr>" by blast
  moreover have "segment_of 1 scenario_B 1 = 1" by (simp add: segment_of_def scenario_B_gap)
  ultimately have s: "fst (detect 1 2 scenario_B) ! 1 = (scenario_B ! 1)\<lparr>word_speaker_id := Some 1\<rparr>"
    by simp
  have neA: "scenario_A \<noteq> []" and lenA: "length scenario_A = 2" by (simp_all add: scenario_A_def)
  have gA: "gap_before scenario_A 1 \<le> 1" using scenario_A_gap by simp
  have "\<forall>j. 0 < j \<and> j < length scenario_A \<longrightarrow> gap_before scenario_A j \<le> 1"
  proof (intro allI impI)
    fix j assume "0 < j \<and> j < length scenario_A"
    with lenA have "j = 1" by simp
    with gA show "gap_before scenario_A j \<le> 1" by simp
  qed
  with neA detect_round_robin [OF h, of 1 scenario_A]
  have "(\<forall>w\<in>set (fst (detect 1 2 scenario_A)). word_speaker_id w = Some 0) \<and>
      snd (detect 1 2 scenario_A) = [0]" by blast
  then have a: "list_all (\<lambda>w. word_speaker_id w = Some 0) (fst (detect 1 2 scenario_A))"
    "snd (detect 1 2 scenario_A) = [0]" by (simp_all add: list_all_iff)
  from h b ne f g s neA lenA gA a show ?thesis by blast
qed

end
